theory Spec2Isabelle
  imports Complex_Main "HOL-Library.Sublist"
begin

section \<open>Python values, exceptions and the outside world\<close>

text \<open>
  The values the scraper handles all come out of \<^verbatim>\<open>json.loads\<close> or are dict and list
  literals of the same shape, so one datatype covers them. A dict is an association list
  in insertion order (what \<^verbatim>\<open>.items()\<close> enumerates). Python floats are kept abstract
  in the type parameter \<open>'f\<close>: the code only passes them through or compares one with 500.
\<close>

datatype 'f json =
    JNull
  | JBool bool
  | JInt int
  | JFloat 'f
  | JStr string
  | JArr "'f json list"
  | JObj "(string \<times> 'f json) list"

text \<open>
  Exceptions are values. The first eight are the Python exceptions the code can raise
  (\<open>TransportError\<close> stands for whatever the HTTP client raises). \<open>ExtractionError\<close> and
  \<open>MalformedDataError\<close> are the error classes of the specification's taxonomy; no line of
  the source constructs them, they are here so that statements about them can be written.
\<close>

datatype error =
    IndexError
  | KeyError string
  | TypeError
  | AttributeError
  | StopIteration
  | RuntimeError
  | JSONDecodeError
  | TransportError
  | ExtractionError
  | MalformedDataError

definition ebind :: "error + 'a \<Rightarrow> ('a \<Rightarrow> error + 'b) \<Rightarrow> error + 'b" where
  "ebind m f = (case m of Inl e \<Rightarrow> Inl e | Inr x \<Rightarrow> f x)"

text \<open>\<^verbatim>\<open>v[key]\<close> with a string key: only a dict can be subscripted by a string.\<close>

fun getitem :: "'f json \<Rightarrow> string \<Rightarrow> error + 'f json" where
  "getitem (JObj kvs) key = (case map_of kvs key of None \<Rightarrow> Inl (KeyError key) | Some v \<Rightarrow> Inr v)"
| "getitem _ key = Inl TypeError"

text \<open>\<^verbatim>\<open>d[key] = v\<close>: an existing key keeps its position, a new key goes last.\<close>

fun dict_update :: "string \<Rightarrow> 'f json \<Rightarrow> (string \<times> 'f json) list \<Rightarrow> (string \<times> 'f json) list" where
  "dict_update k v [] = [(k, v)]"
| "dict_update k v (p # ps) = (if fst p = k then (k, v) # ps else p # dict_update k v ps)"

fun setitem :: "'f json \<Rightarrow> string \<Rightarrow> 'f json \<Rightarrow> error + 'f json" where
  "setitem (JObj kvs) key v = Inr (JObj (dict_update key v kvs))"
| "setitem _ key v = Inl TypeError"

text \<open>Iterating a value (\<^verbatim>\<open>for x in v\<close>, \<^verbatim>\<open>list.extend(v)\<close>): a list gives its
  elements, a dict its keys, a string its characters; nothing else is iterable.\<close>

fun py_iter :: "'f json \<Rightarrow> error + 'f json list" where
  "py_iter (JArr xs) = Inr xs"
| "py_iter (JObj kvs) = Inr (map (\<lambda>p. JStr (fst p)) kvs)"
| "py_iter (JStr s) = Inr (map (\<lambda>c. JStr [c]) s)"
| "py_iter _ = Inl TypeError"

text \<open>\<^verbatim>\<open>v.items()\<close>: only a dict has the method.\<close>

fun py_items :: "'f json \<Rightarrow> error + (string \<times> 'f json) list" where
  "py_items (JObj kvs) = Inr kvs"
| "py_items _ = Inl AttributeError"

text \<open>\<^verbatim>\<open>sub in s\<close> on strings.\<close>

fun contains :: "string \<Rightarrow> string \<Rightarrow> bool" where
  "contains sub [] = (sub = [])"
| "contains sub (c # cs) = (prefix sub (c # cs) \<or> contains sub cs)"

text \<open>
  What the program cannot compute by itself is a parameter: the HTTP session, the JSON
  and HTML libraries, \<^verbatim>\<open>urlencode\<close>, the random numbers, the comparison of a float with
  an integer, and which of several failing tasks \<^verbatim>\<open>asyncio.gather\<close> sees first.
\<close>

record 'f response =
  resp_text :: string
  resp_json :: "'f json option"

record 'f env =
  http_get :: "string \<Rightarrow> 'f response option"
  json_loads :: "string \<Rightarrow> 'f json option"
  json_dumps :: "'f json \<Rightarrow> string option"
  css_get :: "string \<Rightarrow> string \<Rightarrow> string option"
  urlencode :: "(string \<times> 'f json) list \<Rightarrow> string"
  randint :: "nat \<Rightarrow> int"
  float_gt :: "'f \<Rightarrow> int \<Rightarrow> bool"
  gather_pick :: "nat \<Rightarrow> nat"

text \<open>The effects: the URLs requested so far, the log lines written, the random numbers drawn.\<close>

datatype 'f log_line =
    Info_sale string
  | Info_rent string
  | Info_found "'f json" string
  | Warning_limit "'f json"

record 'f world =
  requests :: "string list"
  logs :: "'f log_line list"
  rng_calls :: nat

text \<open>\<^verbatim>\<open>await session.get(url)\<close>\<close>

definition session_get :: "'f env \<Rightarrow> string \<Rightarrow> 'f world \<Rightarrow> (error + 'f response) \<times> 'f world" where
  "session_get env url w =
     ((case http_get env url of None \<Rightarrow> Inl TransportError | Some r \<Rightarrow> Inr r),
      w\<lparr>requests := requests w @ [url]\<rparr>)"

text \<open>\<^verbatim>\<open>json.loads(v)\<close>: the argument must be a string.\<close>

fun py_json_loads :: "'f env \<Rightarrow> 'f json \<Rightarrow> error + 'f json" where
  "py_json_loads env (JStr s) = (case json_loads env s of None \<Rightarrow> Inl JSONDecodeError | Some v \<Rightarrow> Inr v)"
| "py_json_loads env _ = Inl TypeError"

text \<open>The result of \<^verbatim>\<open>.get()\<close> on a selection: the text, or \<^verbatim>\<open>None\<close>.\<close>

fun opt_str :: "string option \<Rightarrow> 'f json" where
  "opt_str None = JNull"
| "opt_str (Some s) = JStr s"

text \<open>A \<^verbatim>\<open>StopIteration\<close> that leaves the body of an \<^verbatim>\<open>async def\<close> is replaced
  by \<^verbatim>\<open>RuntimeError("coroutine raised StopIteration")\<close>.\<close>

fun coroutine_exit :: "error + 'a \<Rightarrow> error + 'a" where
  "coroutine_exit (Inl StopIteration) = Inl RuntimeError"
| "coroutine_exit r = r"

section \<open>The query-state pattern\<close>

text \<open>
  \<^verbatim>\<open>re.findall(r'"queryState":(\{.+}),\s*"filter', text)\<close>: the list of the group of
  every match, found left to right without overlap. At a starting position the text must
  begin with \<^verbatim>\<open>"queryState":{\<close>; \<^verbatim>\<open>.+\<close> then takes the longest run of one or more
  characters other than a newline after which \<^verbatim>\<open>},\<close>, white space and \<^verbatim>\<open>"filter\<close>
  follow.
\<close>

definition marker :: string where
  \<open>marker = ''"queryState":''\<close>

definition filter_lit :: string where
  \<open>filter_lit = ''"filter''\<close>

definition re_space :: "char \<Rightarrow> bool" where
  "re_space c = (c \<in> set [CHR 0x09, CHR 0x0A, CHR 0x0B, CHR 0x0C, CHR 0x0D,
                           CHR 0x1C, CHR 0x1D, CHR 0x1E, CHR 0x1F, CHR 0x20, CHR 0x85, CHR 0xA0])"

definition group_ends :: "string \<Rightarrow> nat list" where
  "group_ends r =
     filter (\<lambda>k. prefix ''},'' (drop k r) \<and> prefix filter_lit (dropWhile re_space (drop (k + 2) r)))
       [1 ..< length (takeWhile (\<lambda>c. c \<noteq> CHR 0x0A) r)]"

text \<open>A match at the head of \<open>s\<close>: the group and the length of the whole match.\<close>

definition match_at :: "string \<Rightarrow> (string \<times> nat) option" where
  "match_at s =
     (if prefix (marker @ ''{'') s then
        (let r = drop (length marker + 1) s; ks = group_ends r in
         if ks = [] then None
         else (let k = last ks in
               Some (''{'' @ take k r @ ''}'',
                     length marker + 1 + k + 2
                       + length (takeWhile re_space (drop (k + 2) r)) + length filter_lit)))
      else None)"

fun findall_from :: "nat \<Rightarrow> string \<Rightarrow> string list" where
  "findall_from n [] = []"
| "findall_from (Suc n) (c # cs) = findall_from n cs"
| "findall_from 0 (c # cs) =
     (case match_at (c # cs) of
        None \<Rightarrow> findall_from 0 cs
      | Some (g, len) \<Rightarrow> g # findall_from (len - 1) cs)"

definition re_findall_query_state :: "string \<Rightarrow> string list" where
  "re_findall_query_state text = findall_from 0 text"

section \<open>SearchZillow\<close>

definition landing_url :: "string \<Rightarrow> string" where
  "landing_url query = ''https://www.zillow.com/homes/'' @ query @ ''_rb/''"

definition search_url :: string where
  "search_url = ''https://www.zillow.com/search/GetSearchPageState.htm?''"

text \<open>\<^verbatim>\<open>if filters: query_data["filterState"] = filters\<close>: \<^verbatim>\<open>None\<close> and the empty
  dict are both false.\<close>

definition apply_filters :: "(string \<times> 'f json) list option \<Rightarrow> 'f json \<Rightarrow> error + 'f json" where
  "apply_filters filters query_data =
     (case filters of
        None \<Rightarrow> Inr query_data
      | Some f \<Rightarrow> if f = [] then Inr query_data else setitem query_data ''filterState'' (JObj f))"

definition full_query :: "'f json \<Rightarrow> string \<Rightarrow> int \<Rightarrow> (string \<times> 'f json) list" where
  "full_query query_data category rid =
     [(''searchQueryState'', query_data),
      (''wants'', JObj [(category, JArr [JStr ''mapResults''])]),
      (''requestId'', JInt rid)]"

text \<open>\<^verbatim>\<open>_total > 500\<close>: a bool counts as 0 or 1; \<^verbatim>\<open>None\<close>, strings, lists and dicts do
  not compare with an integer.\<close>

fun gt_500 :: "'f env \<Rightarrow> 'f json \<Rightarrow> error + bool" where
  "gt_500 env (JInt n) = Inr (500 < n)"
| "gt_500 env (JBool b) = Inr False"
| "gt_500 env (JFloat x) = Inr (float_gt env x 500)"
| "gt_500 env _ = Inl TypeError"

definition total_result_count :: "'f json \<Rightarrow> string \<Rightarrow> error + 'f json" where
  "total_result_count data category =
     ebind (ebind (getitem data ''categoryTotals'') (\<lambda>t. getitem t category))
       (\<lambda>t. getitem t ''totalResultCount'')"

definition map_results :: "'f json \<Rightarrow> string \<Rightarrow> error + 'f json" where
  "map_results data category =
     ebind (ebind (getitem data category) (\<lambda>d. getitem d ''searchResults''))
       (\<lambda>d. getitem d ''mapResults'')"

text \<open>One turn of \<^verbatim>\<open>for category in categories\<close>.\<close>

definition category_step ::
  "'f env \<Rightarrow> string \<Rightarrow> 'f json \<Rightarrow> string \<Rightarrow> 'f json list \<Rightarrow> 'f world
     \<Rightarrow> (error + 'f json list) \<times> 'f world" where
  "category_step env query query_data category found w =
     (let rid = randint env (rng_calls w);
          w1 = w\<lparr>rng_calls := Suc (rng_calls w)\<rparr>
      in case session_get env (search_url @ urlencode env (full_query query_data category rid)) w1 of
           (Inl e, w2) \<Rightarrow> (Inl e, w2)
         | (Inr api_response, w2) \<Rightarrow>
             (case resp_json api_response of
                None \<Rightarrow> (Inl JSONDecodeError, w2)
              | Some data \<Rightarrow>
                  (case total_result_count data category of
                     Inl e \<Rightarrow> (Inl e, w2)
                   | Inr total_count \<Rightarrow>
                       (case gt_500 env total_count of
                          Inl e \<Rightarrow> (Inl e, w2)
                        | Inr over \<Rightarrow>
                            (let w3 = w2\<lparr>logs := logs w2 @
                                        [if over then Warning_limit total_count else Info_found total_count query]\<rparr>
                             in case ebind (map_results data category) py_iter of
                                  Inl e \<Rightarrow> (Inl e, w3)
                                | Inr items \<Rightarrow> (Inr (found @ items), w3))))))"

fun category_loop ::
  "'f env \<Rightarrow> string \<Rightarrow> 'f json \<Rightarrow> string list \<Rightarrow> 'f json list \<Rightarrow> 'f world
     \<Rightarrow> (error + 'f json list) \<times> 'f world" where
  "category_loop env query query_data [] found w = (Inr found, w)"
| "category_loop env query query_data (category # rest) found w =
     (case category_step env query query_data category found w of
        (Inl e, w') \<Rightarrow> (Inl e, w')
      | (Inr found', w') \<Rightarrow> category_loop env query query_data rest found' w')"

definition zillow_request ::
  "'f env \<Rightarrow> string \<Rightarrow> (string \<times> 'f json) list option \<Rightarrow> string list \<Rightarrow> 'f world
     \<Rightarrow> (error + 'f json list) \<times> 'f world" where
  "zillow_request env query filters categories w =
     (case session_get env (landing_url query) w of
        (Inl e, w1) \<Rightarrow> (Inl e, w1)
      | (Inr html_response, w1) \<Rightarrow>
          (case re_findall_query_state (resp_text html_response) of
             [] \<Rightarrow> (Inl IndexError, w1)
           | m # ms \<Rightarrow>
               (case json_loads env m of
                  None \<Rightarrow> (Inl JSONDecodeError, w1)
                | Some loaded \<Rightarrow>
                    (case apply_filters filters loaded of
                       Inl e \<Rightarrow> (Inl e, w1)
                     | Inr query_data \<Rightarrow> category_loop env query query_data categories [] w1))))"

definition search_sale :: "'f env \<Rightarrow> string \<Rightarrow> 'f world \<Rightarrow> (error + 'f json list) \<times> 'f world" where
  "search_sale env query w =
     zillow_request env query None [''cat1'', ''cat2''] (w\<lparr>logs := logs w @ [Info_sale query]\<rparr>)"

definition search_rent :: "'f env \<Rightarrow> string \<Rightarrow> 'f world \<Rightarrow> (error + 'f json list) \<times> 'f world" where
  "search_rent env query w =
     (let filters =
            [(''isForSaleForeclosure'', JObj [(''value'', JBool False)]),
             (''isMultiFamily'', JObj [(''value'', JBool False)]),
             (''isAllHomes'', JObj [(''value'', JBool True)]),
             (''isAuction'', JObj [(''value'', JBool False)]),
             (''isNewConstruction'', JObj [(''value'', JBool False)]),
             (''isForRent'', JObj [(''value'', JBool True)]),
             (''isLotLand'', JObj [(''value'', JBool False)]),
             (''isManufactured'', JObj [(''value'', JBool False)]),
             (''isForSaleByOwner'', JObj [(''value'', JBool False)]),
             (''isComingSoon'', JObj [(''value'', JBool False)]),
             (''isForSaleByAgent'', JObj [(''value'', JBool False)])]
      in zillow_request env query (Some filters) [''cat1'']
           (w\<lparr>logs := logs w @ [Info_rent query]\<rparr>))"

section \<open>ParseProperties\<close>

text \<open>\<^verbatim>\<open>[photo["url"] for photo in photos]\<close>\<close>

fun photo_urls :: "'f json list \<Rightarrow> error + 'f json list" where
  "photo_urls [] = Inr []"
| "photo_urls (photo # rest) =
     (case getitem photo ''url'' of
        Inl e \<Rightarrow> Inl e
      | Inr u \<Rightarrow> (case photo_urls rest of Inl e \<Rightarrow> Inl e | Inr us \<Rightarrow> Inr (u # us)))"

definition parse_property :: "'f json \<Rightarrow> error + 'f json" where
  "parse_property data =
     ebind (getitem data ''address'') (\<lambda>address.
     ebind (getitem data ''description'') (\<lambda>description.
     ebind (ebind (ebind (getitem data ''galleryPhotos'') py_iter) photo_urls) (\<lambda>photos.
     ebind (getitem data ''zipcode'') (\<lambda>zipcode.
     ebind (getitem data ''buildingPhoneNumber'') (\<lambda>phone.
     ebind (getitem data ''buildingName'') (\<lambda>name.
     ebind (getitem data ''floorPlans'') (\<lambda>floor_plans.
       Inr (JObj [(''address'', address),
                  (''description'', description),
                  (''photos'', JArr photos),
                  (''zipcode'', zipcode),
                  (''phone'', phone),
                  (''name'', name),
                  (''floor_plans'', floor_plans)]))))))))"

text \<open>\<^verbatim>\<open>next(v['property'] for k, v in items if 'ForSale' in k)\<close>\<close>

fun next_for_sale :: "(string \<times> 'f json) list \<Rightarrow> error + 'f json" where
  "next_for_sale [] = Inl StopIteration"
| "next_for_sale ((k, v) # rest) =
     (if contains ''ForSale'' k then getitem v ''property'' else next_for_sale rest)"

definition next_data_branch :: "'f env \<Rightarrow> string \<Rightarrow> error + 'f json" where
  "next_data_branch env data =
     ebind (py_json_loads env (JStr data)) (\<lambda>d.
     ebind (getitem d ''props'') (\<lambda>d.
     ebind (getitem d ''initialReduxState'') (\<lambda>d.
     ebind (getitem d ''gdp'') (\<lambda>d.
     ebind (getitem d ''building'') parse_property))))"

definition apollo_branch :: "'f env \<Rightarrow> string \<Rightarrow> error + 'f json" where
  "apollo_branch env html =
     ebind (py_json_loads env (opt_str (css_get env ''script#hdpApolloPreloadedData::text'' html))) (\<lambda>d.
     ebind (getitem d ''apiCache'') (\<lambda>cache.
     ebind (py_json_loads env cache) (\<lambda>data.
     ebind (py_items data) next_for_sale)))"

text \<open>The inner coroutine \<^verbatim>\<open>scrape(url)\<close>.\<close>

definition scrape :: "'f env \<Rightarrow> string \<Rightarrow> 'f world \<Rightarrow> (error + 'f json) \<times> 'f world" where
  "scrape env url w =
     (case session_get env url w of
        (Inl e, w1) \<Rightarrow> (Inl e, w1)
      | (Inr resp, w1) \<Rightarrow>
          (case css_get env ''script#__NEXT_DATA__::text'' (resp_text resp) of
             Some data \<Rightarrow>
               if data \<noteq> [] then (coroutine_exit (next_data_branch env data), w1)
               else (coroutine_exit (apollo_branch env (resp_text resp)), w1)
           | None \<Rightarrow> (coroutine_exit (apollo_branch env (resp_text resp)), w1)))"

fun scrape_each :: "'f env \<Rightarrow> string list \<Rightarrow> 'f world \<Rightarrow> (error + 'f json) list \<times> 'f world" where
  "scrape_each env [] w = ([], w)"
| "scrape_each env (url # urls) w =
     (case scrape env url w of
        (r, w1) \<Rightarrow> (case scrape_each env urls w1 of (rs, w2) \<Rightarrow> (r # rs, w2)))"

text \<open>\<^verbatim>\<open>asyncio.gather\<close>: all the results in the order of the URLs, or the exception of
  the task that failed first.\<close>

definition scrape_properties ::
  "'f env \<Rightarrow> string list \<Rightarrow> 'f world \<Rightarrow> (error + 'f json list) \<times> 'f world" where
  "scrape_properties env urls w =
     (case scrape_each env urls w of
        (rs, w') \<Rightarrow>
          (let errs = List.map_filter (\<lambda>r. case r of Inl e \<Rightarrow> Some e | Inr v \<Rightarrow> None) rs in
           if errs = []
           then (Inr (List.map_filter (\<lambda>r. case r of Inl e \<Rightarrow> None | Inr v \<Rightarrow> Some v) rs), w')
           else (Inl (errs ! (gather_pick env (length errs) mod length errs)), w')))"

section \<open>Entry points\<close>


definition find_properties :: "'f env \<Rightarrow> string \<Rightarrow> 'f world \<Rightarrow> (error + 'f json) \<times> 'f world" where
  "find_properties env url w =
     (case scrape_properties env [''https://www.zillow.com'' @ url] w of
        (Inl e, w') \<Rightarrow> (Inl e, w')
      | (Inr data, w') \<Rightarrow> (py_json_loads env (JArr data), w'))"

section \<open>The selection rule as the specification words it\<close>

text \<open>The specification's data model calls the correct cache entry ``the first whose key
  contains the substring ForSale and whose value has a property field''. This is that
  reading, to be compared with \<open>next_for_sale\<close>.\<close>

definition has_property :: "'f json \<Rightarrow> bool" where
  "has_property v = (case getitem v ''property'' of Inl e \<Rightarrow> False | Inr x \<Rightarrow> True)"

definition first_for_sale_with_property :: "(string \<times> 'f json) list \<Rightarrow> (error + 'f json) option" where
  "first_for_sale_with_property items =
     map_option (\<lambda>p. getitem (snd p) ''property'')
       (find (\<lambda>p. contains ''ForSale'' (fst p) \<and> has_property (snd p)) items)"

text \<open>The search requests \<open>category_loop\<close> issues when no turn fails: one per category,
  the request id being the next random number.\<close>

definition api_urls :: "'f env \<Rightarrow> 'f json \<Rightarrow> string list \<Rightarrow> nat \<Rightarrow> string list" where
  "api_urls env query_data categories k =
     map (\<lambda>i. search_url @ urlencode env (full_query query_data (categories ! i) (randint env (k + i))))
       [0 ..< length categories]"

section \<open>The JSON library\<close>

text \<open>
  \<^verbatim>\<open>json.dumps\<close> and \<^verbatim>\<open>json.loads\<close> belong to Python's standard library, not to the
  repository; the program's functions take them from the environment. This section is a
  reference model of the two as the library documents them, used to state what a round
  trip through them does: the encoder with its default separators \<^verbatim>\<open>", "\<close> and
  \<^verbatim>\<open>": "\<close> and its ASCII-only string escapes, the decoder as the recursive descent of
  \<^verbatim>\<open>json.decoder\<close> and \<^verbatim>\<open>json.scanner\<close>. Strings are lists of code points below 256, so
  an escape \<^verbatim>\<open>\uXXXX\<close> above that range is outside the model and is not decoded. Floats
  stay abstract: \<open>frepr\<close> prints one, \<open>fread\<close> reads a number token with a fraction or an
  exponent (or one of the three constants).
\<close>

subsection \<open>Numbers\<close>

definition is_digit :: "char \<Rightarrow> bool" where
  "is_digit c = (48 \<le> (of_char c :: nat) \<and> (of_char c :: nat) \<le> 57)"

definition digit_char :: "nat \<Rightarrow> char" where
  "digit_char d = char_of (48 + d)"

function str_nat :: "nat \<Rightarrow> string" where
  "str_nat n = (if n < 10 then [digit_char n] else str_nat (n div 10) @ [digit_char (n mod 10)])"
  by pat_completeness auto
termination
  by (relation "measure id") auto

declare str_nat.simps [simp del]

definition str_int :: "int \<Rightarrow> string" where
  "str_int i = (if i < 0 then ''-'' @ str_nat (nat (- i)) else str_nat (nat i))"







definition num_end :: "string \<Rightarrow> bool" where
  "num_end rest =
     (case rest of
        [] \<Rightarrow> True
      | c # r \<Rightarrow> \<not> is_digit c \<and> c \<noteq> CHR ''.'' \<and> c \<noteq> CHR ''e'' \<and> c \<noteq> CHR ''E'')"

subsection \<open>Strings\<close>

definition hex_char :: "nat \<Rightarrow> char" where
  "hex_char k = (if k < 10 then char_of (48 + k) else char_of (87 + k))"



definition escape_char :: "char \<Rightarrow> string" where
  "escape_char c =
     (if c = CHR 0x22 then [CHR 0x5C, CHR 0x22]
      else if c = CHR 0x5C then [CHR 0x5C, CHR 0x5C]
      else if c = CHR 0x0A then [CHR 0x5C, CHR ''n'']
      else if c = CHR 0x0D then [CHR 0x5C, CHR ''r'']
      else if c = CHR 0x09 then [CHR 0x5C, CHR ''t'']
      else if c = CHR 0x08 then [CHR 0x5C, CHR ''b'']
      else if c = CHR 0x0C then [CHR 0x5C, CHR ''f'']
      else if (of_char c :: nat) < 32 \<or> 126 < (of_char c :: nat)
        then [CHR 0x5C, CHR ''u'', CHR ''0'', CHR ''0'',
              hex_char ((of_char c :: nat) div 16), hex_char ((of_char c :: nat) mod 16)]
      else [c])"

definition encode_string :: "string \<Rightarrow> string" where
  "encode_string s = CHR 0x22 # concat (map escape_char s) @ [CHR 0x22]"



subsection \<open>Values\<close>

definition is_ws :: "char \<Rightarrow> bool" where
  "is_ws c = (c = CHR '' '' \<or> c = CHR 0x09 \<or> c = CHR 0x0A \<or> c = CHR 0x0D)"

definition skip_ws :: "string \<Rightarrow> string" where
  "skip_ws s = dropWhile is_ws s"

fun join_items :: "string list \<Rightarrow> string" where
  "join_items [] = []"
| "join_items [x] = x"
| "join_items (x # y # r) = x @ '', '' @ join_items (y # r)"

fun encode :: "('f \<Rightarrow> string) \<Rightarrow> 'f json \<Rightarrow> string" where
  "encode frepr JNull = ''null''"
| "encode frepr (JBool b) = (if b then ''true'' else ''false'')"
| "encode frepr (JInt i) = str_int i"
| "encode frepr (JFloat x) = frepr x"
| "encode frepr (JStr s) = encode_string s"
| "encode frepr (JArr xs) = ''['' @ join_items (map (encode frepr) xs) @ '']''"
| "encode frepr (JObj kvs) =
     ''{'' @ join_items (map (\<lambda>p. encode_string (fst p) @ '': '' @ encode frepr (snd p)) kvs) @ ''}''"




definition py_dumps :: "('f \<Rightarrow> string) \<Rightarrow> 'f json \<Rightarrow> string option" where
  "py_dumps frepr v = Some (encode frepr v)"





section \<open>A small world for concrete runs\<close>

definition demo_world :: "real world" where
  "demo_world = \<lparr>requests = [], logs = [], rng_calls = 0\<rparr>"

definition demo_landing_page :: "real response" where
  \<open>demo_landing_page =
     \<lparr>resp_text = ''<script>{"queryState":{"filterState":{"sort":1}},"filterDefaults":{}}</script>'',
      resp_json = None\<rparr>\<close>

definition demo_blocked_page :: "real response" where
  "demo_blocked_page = \<lparr>resp_text = ''<html>Press and hold to confirm you are human</html>'', resp_json = None\<rparr>"

definition demo_query_state :: "real json" where
  "demo_query_state = JObj [(''filterState'', JObj [(''sort'', JInt 1)])]"

definition demo_cat1 :: "real json" where
  "demo_cat1 =
     JObj [(''categoryTotals'', JObj [(''cat1'', JObj [(''totalResultCount'', JInt 2)])]),
           (''cat1'', JObj [(''searchResults'',
              JObj [(''mapResults'', JArr [JObj [(''zpid'', JInt 1), (''latitude'', JFloat 21.3)],
                                           JObj [(''zpid'', JInt 2)]])])])]"

definition demo_cat2 :: "real json" where
  "demo_cat2 =
     JObj [(''categoryTotals'', JObj [(''cat2'', JObj [(''totalResultCount'', JInt 501)])]),
           (''cat2'', JObj [(''searchResults'',
              JObj [(''mapResults'', JArr [JObj [(''zpid'', JInt 3)]])])])]"

definition demo_building :: "real json" where
  "demo_building =
     JObj [(''address'', JStr ''1 Main St''),
           (''description'', JStr ''two towers''),
           (''galleryPhotos'', JArr [JObj [(''url'', JStr ''p1.jpg''), (''caption'', JNull)],
                                     JObj [(''url'', JStr ''p2.jpg'')]]),
           (''zipcode'', JStr ''96815''),
           (''buildingPhoneNumber'', JNull),
           (''buildingName'', JStr ''Tower''),
           (''floorPlans'', JArr [JObj [(''minPrice'', JInt 2100)]]),
           (''latitude'', JFloat 21.3)]"

definition demo_next_data :: "real json" where
  "demo_next_data =
     JObj [(''props'', JObj [(''initialReduxState'', JObj [(''gdp'', JObj [(''building'', demo_building)])])])]"

definition demo_cache1 :: "(string \<times> real json) list" where
  "demo_cache1 =
     [(''VariantQuery{zpid:1}'', JObj [(''property'', JObj [(''zpid'', JInt 1)])]),
      (''ForSaleShopperPlatformFullRenderQuery{zpid:1}'',
         JObj [(''property'', JObj [(''zpid'', JInt 1), (''price'', JInt 500000)])]),
      (''ForSaleDoubleScrollFullRenderQuery{zpid:1}'',
         JObj [(''property'', JObj [(''zpid'', JInt 1), (''homeStatus'', JStr ''FOR_SALE'')])])]"

definition demo_cache2 :: "(string \<times> real json) list" where
  "demo_cache2 =
     [(''ForSaleShopperPlatformFullRenderQuery{zpid:2}'', JObj [(''viewer'', JNull)]),
      (''ForSaleDoubleScrollFullRenderQuery{zpid:2}'', JObj [(''property'', JObj [(''zpid'', JInt 2)])])]"

definition demo_cache3 :: "(string \<times> real json) list" where
  "demo_cache3 = [(''VariantQuery{zpid:3}'', JObj [(''property'', JObj [(''zpid'', JInt 3)])])]"

fun demo_keys :: "real json \<Rightarrow> string" where
  "demo_keys (JObj kvs) = concat (map (\<lambda>p. fst p @ ''.'') kvs)"
| "demo_keys _ = []"

definition demo_urlencode :: "(string \<times> real json) list \<Rightarrow> string" where
  "demo_urlencode q =
     concat (map (\<lambda>p. fst p @ ''='' @
                      (case getitem (snd p) ''filterState'' of
                         Inr f \<Rightarrow> demo_keys f
                       | Inl e \<Rightarrow> demo_keys (snd p)) @ ''&'') q)"

definition demo_http_get :: "string \<Rightarrow> real response option" where
  "demo_http_get url =
     (if url = landing_url ''Honolulu, HI'' then Some demo_landing_page
      else if url = landing_url ''Nowhere'' then Some demo_blocked_page
      else if prefix search_url url \<and> contains ''wants=cat1.'' url
        then Some \<lparr>resp_text = [], resp_json = Some demo_cat1\<rparr>
      else if prefix search_url url \<and> contains ''wants=cat2.'' url
        then Some \<lparr>resp_text = [], resp_json = Some demo_cat2\<rparr>
      else if url = ''https://www.zillow.com/b/tower'' then Some \<lparr>resp_text = ''tower.html'', resp_json = None\<rparr>
      else if url = ''https://www.zillow.com/homedetails/1_zpid'' then Some \<lparr>resp_text = ''home1.html'', resp_json = None\<rparr>
      else if url = ''https://www.zillow.com/homedetails/2_zpid'' then Some \<lparr>resp_text = ''home2.html'', resp_json = None\<rparr>
      else if url = ''https://www.zillow.com/homedetails/3_zpid'' then Some \<lparr>resp_text = ''home3.html'', resp_json = None\<rparr>
      else if url = ''https://www.zillow.com/captcha'' then Some \<lparr>resp_text = ''captcha.html'', resp_json = None\<rparr>
      else None)"

definition demo_css_get :: "string \<Rightarrow> string \<Rightarrow> string option" where
  "demo_css_get selector html =
     (if selector = ''script#__NEXT_DATA__::text'' \<and> html = ''tower.html'' then Some ''tower.json''
      else if selector = ''script#hdpApolloPreloadedData::text'' \<and> html = ''home1.html'' then Some ''home1.json''
      else if selector = ''script#hdpApolloPreloadedData::text'' \<and> html = ''home2.html'' then Some ''home2.json''
      else if selector = ''script#hdpApolloPreloadedData::text'' \<and> html = ''home3.html'' then Some ''home3.json''
      else None)"

definition demo_json_loads :: "string \<Rightarrow> real json option" where
  \<open>demo_json_loads s =
     (if s = ''{"filterState":{"sort":1}}'' then Some demo_query_state
      else if s = ''tower.json'' then Some demo_next_data
      else if s = ''home1.json'' then Some (JObj [(''apiCache'', JStr ''cache1.json'')])
      else if s = ''home2.json'' then Some (JObj [(''apiCache'', JStr ''cache2.json'')])
      else if s = ''home3.json'' then Some (JObj [(''apiCache'', JStr ''cache3.json'')])
      else if s = ''cache1.json'' then Some (JObj demo_cache1)
      else if s = ''cache2.json'' then Some (JObj demo_cache2)
      else if s = ''cache3.json'' then Some (JObj demo_cache3)
      else None)\<close>

definition demo_frepr :: "real \<Rightarrow> string" where
  "demo_frepr x = (if x = 21.3 then ''21.3'' else ''NaN'')"


definition demo_env :: "real env" where
  "demo_env =
     \<lparr>http_get = demo_http_get,
      json_loads = demo_json_loads,
      json_dumps = py_dumps demo_frepr,
      css_get = demo_css_get,
      urlencode = demo_urlencode,
      randint = (\<lambda>n. 2 + int (n mod 9)),
      float_gt = (\<lambda>x n. real_of_int n < x),
      gather_pick = (\<lambda>n. 0)\<rparr>"


section \<open>Basic facts\<close>

lemma ebind_simps [simp]:
  "ebind (Inl e) f = Inl e"
  "ebind (Inr x) f = f x"
  by (simp_all add: ebind_def)

lemmas demo_defs =
  demo_env_def demo_http_get_def demo_css_get_def demo_json_loads_def
  demo_urlencode_def demo_world_def landing_url_def search_url_def

lemmas scrape_defs = scrape_def session_get_def apollo_branch_def next_data_branch_def parse_property_def

lemma next_for_sale_find:
  "next_for_sale items =
     (case find (\<lambda>p. contains ''ForSale'' (fst p)) items of
        None \<Rightarrow> Inl StopIteration
      | Some p \<Rightarrow> getitem (snd p) ''property'')"
  by (induction items) auto

lemma getitem_not_StopIteration: "getitem v key \<noteq> Inl StopIteration"
  by (cases v) (auto split: option.splits)

lemma coroutine_exit_getitem [simp]: "coroutine_exit (getitem v key) = getitem v key"
  using getitem_not_StopIteration [of v key]
  by (cases "getitem v key" rule: coroutine_exit.cases) simp_all

lemma apollo_branch_items:
  assumes "css_get env ''script#hdpApolloPreloadedData::text'' html = Some s"
    and "json_loads env s = Some d"
    and "getitem d ''apiCache'' = Inr (JStr t)"
    and "json_loads env t = Some (JObj items)"
  shows "apollo_branch env html = next_for_sale items"
  using assms by (simp add: apollo_branch_def)

lemma scrape_apollo:
  assumes "http_get env url = Some page"
    and "css_get env ''script#__NEXT_DATA__::text'' (resp_text page) = None"
  shows "scrape env url w =
           (coroutine_exit (apollo_branch env (resp_text page)), w\<lparr>requests := requests w @ [url]\<rparr>)"
  using assms by (simp add: scrape_def session_get_def)

lemma photo_urls_all2:
  "list_all2 (\<lambda>photo u. getitem photo ''url'' = Inr u) photos urls \<Longrightarrow> photo_urls photos = Inr urls"
  by (induction rule: list_all2_induct) simp_all

section \<open>The JSON round trip\<close>




































lemma num_end_punct [simp]:
  "num_end (CHR '']'' # s)" "num_end (CHR ''}'' # s)" "num_end (CHR '','' # s)" "num_end []"
  by (simp_all add: num_end_def is_digit_def)

lemma skip_ws_punct [simp]:
  "skip_ws (CHR '']'' # s) = CHR '']'' # s"
  "skip_ws (CHR ''}'' # s) = CHR ''}'' # s"
  "skip_ws (CHR '','' # s) = CHR '','' # s"
  "skip_ws (CHR '':'' # s) = CHR '':'' # s"
  "skip_ws (CHR 0x22 # s) = CHR 0x22 # s"
  "skip_ws [] = []"
  by (simp_all add: skip_ws_def is_ws_def)


lemma encode_string_Cons: "encode_string k = CHR 0x22 # tl (encode_string k)"
  by (simp add: encode_string_def)












section \<open>The Query Builder\<close>

lemma findall_no_marker: "\<not> contains marker body \<Longrightarrow> findall_from n body = []"
proof (induction body arbitrary: n)
  case Nil
  then show ?case by simp
next
  case (Cons c cs)
  then have no_prefix: "\<not> prefix marker (c # cs)" and rest: "\<not> contains marker cs"
    by simp_all
  from no_prefix have "match_at (c # cs) = None"
    unfolding match_at_def using append_prefixD by auto
  with Cons.IH [OF rest] show ?case
    by (cases n) simp_all
qed

lemma demo_blocked_no_marker: "\<not> contains marker (resp_text demo_blocked_page)"
  by (simp add: demo_blocked_page_def marker_def)

text \<open>
  C5 (as amended). When the landing page is fetched and its body does not contain the
  marker \<^verbatim>\<open>"queryState":\<close>, the Query Builder fails with \<open>IndexError\<close> (indexing the
  empty list of matches; the code has no \<open>ExtractionError\<close>), and it fails before any
  search API request: the landing page is the only request issued, nothing is logged and
  no random number is drawn.
\<close>

theorem zillow_request_no_marker:
  assumes "http_get env (landing_url query) = Some page"
    and "\<not> contains marker (resp_text page)"
  shows "zillow_request env query filters categories w =
           (Inl IndexError, w\<lparr>requests := requests w @ [landing_url query]\<rparr>)"
  using assms
  by (simp add: zillow_request_def session_get_def re_findall_query_state_def findall_no_marker)

theorem zillow_request_no_marker_witness:
  "zillow_request demo_env ''Nowhere'' None [''cat1'', ''cat2''] demo_world =
     (Inl IndexError, \<lparr>requests = [''https://www.zillow.com/homes/Nowhere_rb/''], logs = [], rng_calls = 0\<rparr>)"
proof -
  have get: "http_get demo_env (landing_url ''Nowhere'') = Some demo_blocked_page"
    by (simp add: demo_defs)
  show ?thesis
    using zillow_request_no_marker [OF get demo_blocked_no_marker, of None "[''cat1'', ''cat2'']" demo_world]
    by (simp add: demo_world_def landing_url_def)
qed

text \<open>C5 as stated fails: on a challenge page without the marker the error is
  \<open>IndexError\<close>, not \<open>ExtractionError\<close>.\<close>

theorem zillow_request_no_marker_counterexample:
  "http_get demo_env (landing_url ''Nowhere'') = Some demo_blocked_page
   \<and> \<not> contains marker (resp_text demo_blocked_page)
   \<and> fst (zillow_request demo_env ''Nowhere'' None [''cat1'', ''cat2''] demo_world) = Inl IndexError
   \<and> fst (zillow_request demo_env ''Nowhere'' None [''cat1'', ''cat2''] demo_world) \<noteq> Inl ExtractionError"
proof -
  have get: "http_get demo_env (landing_url ''Nowhere'') = Some demo_blocked_page"
    by (simp add: demo_defs)
  have "re_findall_query_state (resp_text demo_blocked_page) = []"
    by (simp add: re_findall_query_state_def findall_no_marker demo_blocked_no_marker)
  with get show ?thesis
    by (simp add: zillow_request_def session_get_def demo_blocked_no_marker)
qed

lemma category_step_requests:
  "requests (snd (category_step env query qd c found w)) =
     requests w @ [search_url @ urlencode env (full_query qd c (randint env (rng_calls w)))]"
  by (simp add: category_step_def session_get_def Let_def split: option.splits sum.splits)

lemma category_step_rng:
  "rng_calls (snd (category_step env query qd c found w)) = Suc (rng_calls w)"
  by (simp add: category_step_def session_get_def Let_def split: option.splits sum.splits)

lemma category_step_ok:
  assumes "http_get env (search_url @ urlencode env (full_query qd c (randint env (rng_calls w)))) = Some r"
    and "resp_json r = Some data"
    and "total_result_count data c = Inr tc"
    and "gt_500 env tc = Inr over"
    and "map_results data c = Inr (JArr xs)"
  shows "fst (category_step env query qd c found w) = Inr (found @ xs)"
  using assms by (simp add: category_step_def session_get_def Let_def)

lemma api_urls_Nil [simp]: "api_urls env qd [] k = []"
  by (simp add: api_urls_def)

lemma upt_0_Suc_map: "[0 ..< Suc n] = 0 # map Suc [0 ..< n]"
proof -
  have "[0 ..< Suc n] = 0 # [Suc 0 ..< Suc n]"
    by (rule upt_conv_Cons) simp
  also have "[Suc 0 ..< Suc n] = map Suc [0 ..< n]"
    by (simp only: map_Suc_upt)
  finally show ?thesis .
qed

lemma api_urls_Cons:
  "api_urls env qd (c # cs) k =
     (search_url @ urlencode env (full_query qd c (randint env k))) # api_urls env qd cs (Suc k)"
proof -
  have "length (c # cs) = Suc (length cs)"
    by simp
  then show ?thesis
    unfolding api_urls_def by (simp only: upt_0_Suc_map) (simp add: o_def)
qed

lemma category_loop_requests:
  "\<exists>us. prefix us (api_urls env qd cs (rng_calls w))
      \<and> requests (snd (category_loop env query qd cs found w)) = requests w @ us"
proof (induction cs arbitrary: found w)
  case Nil
  show ?case by simp
next
  case (Cons c cs)
  let ?u = "search_url @ urlencode env (full_query qd c (randint env (rng_calls w)))"
  obtain r w' where step: "category_step env query qd c found w = (r, w')"
    by (cases "category_step env query qd c found w")
  from step have req: "requests w' = requests w @ [?u]" and rng: "rng_calls w' = Suc (rng_calls w)"
    using category_step_requests [of env query qd c found w]
      category_step_rng [of env query qd c found w] by simp_all
  show ?case
  proof (cases r)
    case (Inl e)
    with step req have "requests (snd (category_loop env query qd (c # cs) found w)) = requests w @ [?u]"
      by simp
    moreover have "prefix [?u] (api_urls env qd (c # cs) (rng_calls w))"
      by (simp add: api_urls_Cons)
    ultimately show ?thesis by blast
  next
    case (Inr found')
    from Cons.IH [of w' found'] rng obtain us where
      us: "prefix us (api_urls env qd cs (Suc (rng_calls w)))"
      and loop: "requests (snd (category_loop env query qd cs found' w')) = requests w' @ us"
      by auto
    from step Inr loop req
    have "requests (snd (category_loop env query qd (c # cs) found w)) = requests w @ (?u # us)"
      by simp
    moreover from us have "prefix (?u # us) (api_urls env qd (c # cs) (rng_calls w))"
      by (simp add: api_urls_Cons)
    ultimately show ?thesis by blast
  qed
qed

lemma category_loop_ok:
  assumes "length per_category = length cs"
    and "\<forall>i<length cs. \<exists>r data tc over.
           http_get env (search_url @ urlencode env (full_query qd (cs ! i) (randint env (rng_calls w + i)))) = Some r
           \<and> resp_json r = Some data
           \<and> total_result_count data (cs ! i) = Inr tc
           \<and> gt_500 env tc = Inr over
           \<and> map_results data (cs ! i) = Inr (JArr (per_category ! i))"
  shows "fst (category_loop env query qd cs found w) = Inr (found @ concat per_category)"
  using assms
proof (induction cs arbitrary: found w per_category)
  case Nil
  then show ?case by simp
next
  case (Cons c cs)
  from Cons.prems(1) obtain xs rest where per: "per_category = xs # rest" and len: "length rest = length cs"
    by (cases per_category) auto
  from Cons.prems(2) have "\<exists>r data tc over.
           http_get env (search_url @ urlencode env (full_query qd ((c # cs) ! 0) (randint env (rng_calls w + 0)))) = Some r
           \<and> resp_json r = Some data
           \<and> total_result_count data ((c # cs) ! 0) = Inr tc
           \<and> gt_500 env tc = Inr over
           \<and> map_results data ((c # cs) ! 0) = Inr (JArr (per_category ! 0))"
    by blast
  then have first: "fst (category_step env query qd c found w) = Inr (found @ xs)"
    using per by (auto intro: category_step_ok)
  obtain w' where step: "category_step env query qd c found w = (Inr (found @ xs), w')"
    using first by (cases "category_step env query qd c found w") auto
  then have rng: "rng_calls w' = Suc (rng_calls w)"
    using category_step_rng [of env query qd c found w] by simp
  have "\<forall>i<length cs. \<exists>r data tc over.
           http_get env (search_url @ urlencode env (full_query qd (cs ! i) (randint env (rng_calls w' + i)))) = Some r
           \<and> resp_json r = Some data
           \<and> total_result_count data (cs ! i) = Inr tc
           \<and> gt_500 env tc = Inr over
           \<and> map_results data (cs ! i) = Inr (JArr (rest ! i))"
  proof (intro allI impI)
    fix i assume "i < length cs"
    then have "Suc i < length (c # cs)" by simp
    from Cons.prems(2) [rule_format, OF this] show "\<exists>r data tc over.
           http_get env (search_url @ urlencode env (full_query qd (cs ! i) (randint env (rng_calls w' + i)))) = Some r
           \<and> resp_json r = Some data
           \<and> total_result_count data (cs ! i) = Inr tc
           \<and> gt_500 env tc = Inr over
           \<and> map_results data (cs ! i) = Inr (JArr (rest ! i))"
      using per rng by simp
  qed
  from Cons.IH [OF len this, of "found @ xs"] step per show ?case
    by simp
qed

lemma map_of_dict_update_same: "map_of (dict_update k v kvs) k = Some v"
  by (induction kvs) auto

lemma map_of_dict_update_other: "k' \<noteq> k \<Longrightarrow> map_of (dict_update k v kvs) k' = map_of kvs k'"
  by (induction kvs) auto

lemma demo_landing_match:
  \<open>re_findall_query_state (resp_text demo_landing_page) = [''{"filterState":{"sort":1}}'']\<close>
  by (simp add: demo_landing_page_def re_findall_query_state_def match_at_def marker_def
      filter_lit_def group_ends_def re_space_def)

lemmas json_simps = total_result_count_def map_results_def full_query_def

text \<open>
  C2. When the landing page yields a query-state and every category's search response
  carries its result count and its \<open>mapResults\<close> array, the Query Builder returns the
  concatenation of the arrays, in the order of the categories and, within a category, in
  the order of its array; so the length of the result is the sum of the arrays' lengths.
\<close>

theorem zillow_request_concat:
  assumes "http_get env (landing_url query) = Some page"
    and "re_findall_query_state (resp_text page) = m # ms"
    and "json_loads env m = Some loaded"
    and "apply_filters filters loaded = Inr query_data"
    and "length per_category = length categories"
    and "\<forall>i<length categories. \<exists>r data tc over.
           http_get env (search_url @ urlencode env
              (full_query query_data (categories ! i) (randint env (rng_calls w + i)))) = Some r
           \<and> resp_json r = Some data
           \<and> total_result_count data (categories ! i) = Inr tc
           \<and> gt_500 env tc = Inr over
           \<and> map_results data (categories ! i) = Inr (JArr (per_category ! i))"
  shows "\<exists>found. fst (zillow_request env query filters categories w) = Inr found
           \<and> found = concat per_category
           \<and> length found = sum_list (map length per_category)"
proof -
  let ?w1 = "w\<lparr>requests := requests w @ [landing_url query]\<rparr>"
  have "rng_calls ?w1 = rng_calls w"
    by simp
  with assms(6) have "fst (category_loop env query query_data categories [] ?w1) = Inr ([] @ concat per_category)"
    by (intro category_loop_ok [OF assms(5)]) simp
  with assms(1-4) have "fst (zillow_request env query filters categories w) = Inr (concat per_category)"
    by (simp add: zillow_request_def session_get_def)
  then show ?thesis
    by (simp add: length_concat)
qed

theorem zillow_request_concat_witness:
  "fst (zillow_request demo_env ''Honolulu, HI'' None [''cat1'', ''cat2''] demo_world) =
     Inr [JObj [(''zpid'', JInt 1), (''latitude'', JFloat 21.3)], JObj [(''zpid'', JInt 2)], JObj [(''zpid'', JInt 3)]]"
proof -
  let ?per = "[[JObj [(''zpid'', JInt 1), (''latitude'', JFloat 21.3)], JObj [(''zpid'', JInt 2)]],
               [JObj [(''zpid'', JInt 3)]]] :: real json list list"
  have get: "http_get demo_env (landing_url ''Honolulu, HI'') = Some demo_landing_page"
    by (simp add: demo_defs)
  have loads: \<open>json_loads demo_env ''{"filterState":{"sort":1}}'' = Some demo_query_state\<close>
    by (simp add: demo_defs)
  have filters: "apply_filters None demo_query_state = Inr demo_query_state"
    by (simp add: apply_filters_def)
  have len: "length ?per = length [''cat1'', ''cat2'']"
    by simp
  have c1: "http_get demo_env (search_url @ urlencode demo_env (full_query demo_query_state ''cat1'' (randint demo_env 0)))
      = Some \<lparr>resp_text = [], resp_json = Some demo_cat1\<rparr>"
    by (simp add: demo_defs json_simps demo_query_state_def)
  have c2: "http_get demo_env (search_url @ urlencode demo_env (full_query demo_query_state ''cat2'' (randint demo_env 1)))
      = Some \<lparr>resp_text = [], resp_json = Some demo_cat2\<rparr>"
    by (simp add: demo_defs json_simps demo_query_state_def)
  have d1: "total_result_count demo_cat1 ''cat1'' = Inr (JInt 2)" "gt_500 demo_env (JInt 2) = Inr False"
    "map_results demo_cat1 ''cat1'' = Inr (JArr [JObj [(''zpid'', JInt 1), (''latitude'', JFloat 21.3)], JObj [(''zpid'', JInt 2)]])"
    by (simp_all add: json_simps demo_cat1_def)
  have d2: "total_result_count demo_cat2 ''cat2'' = Inr (JInt 501)" "gt_500 demo_env (JInt 501) = Inr True"
    "map_results demo_cat2 ''cat2'' = Inr (JArr [JObj [(''zpid'', JInt 3)]])"
    by (simp_all add: json_simps demo_cat2_def)
  have api: "\<forall>i<length [''cat1'', ''cat2'']. \<exists>r data tc over.
           http_get demo_env (search_url @ urlencode demo_env
              (full_query demo_query_state ([''cat1'', ''cat2''] ! i) (randint demo_env (rng_calls demo_world + i)))) = Some r
           \<and> resp_json r = Some data
           \<and> total_result_count data ([''cat1'', ''cat2''] ! i) = Inr tc
           \<and> gt_500 demo_env tc = Inr over
           \<and> map_results data ([''cat1'', ''cat2''] ! i) = Inr (JArr (?per ! i))"
  proof (intro allI impI)
    fix i :: nat assume "i < length [''cat1'', ''cat2'']"
    then consider "i = 0" | "i = 1" by fastforce
    then show "\<exists>r data tc over.
           http_get demo_env (search_url @ urlencode demo_env
              (full_query demo_query_state ([''cat1'', ''cat2''] ! i) (randint demo_env (rng_calls demo_world + i)))) = Some r
           \<and> resp_json r = Some data
           \<and> total_result_count data ([''cat1'', ''cat2''] ! i) = Inr tc
           \<and> gt_500 demo_env tc = Inr over
           \<and> map_results data ([''cat1'', ''cat2''] ! i) = Inr (JArr (?per ! i))"
    proof cases
      case 1
      with c1 d1 show ?thesis by (auto simp add: demo_world_def)
    next
      case 2
      with c2 d2 show ?thesis by (auto simp add: demo_world_def)
    qed
  qed
  show ?thesis
    using zillow_request_concat [OF get demo_landing_match loads filters len api]
    by simp
qed

text \<open>
  C3 (as amended). For every supplied filter mapping that is not empty, every search
  request the Query Builder constructs carries a query-state whose \<open>filterState\<close> is
  exactly the supplied mapping (the other entries of the query-state are unchanged): the
  section is replaced, never merged, so no key of the original filter section that is
  absent from the supplied mapping appears in a request.
\<close>

theorem zillow_request_filter_replaced:
  assumes "filters \<noteq> []"
    and "http_get env (landing_url query) = Some page"
    and "re_findall_query_state (resp_text page) = m # ms"
    and "json_loads env m = Some (JObj qd)"
  shows "\<exists>qd' us.
           getitem (JObj qd') ''filterState'' = Inr (JObj filters)
           \<and> (\<forall>k. k \<noteq> ''filterState'' \<longrightarrow> getitem (JObj qd') k = getitem (JObj qd) k)
           \<and> prefix us (api_urls env (JObj qd') categories (rng_calls w))
           \<and> requests (snd (zillow_request env query (Some filters) categories w)) =
                requests w @ landing_url query # us"
proof -
  let ?qd' = "dict_update ''filterState'' (JObj filters) qd"
  let ?w1 = "w\<lparr>requests := requests w @ [landing_url query]\<rparr>"
  from assms(1) have filt: "apply_filters (Some filters) (JObj qd) = Inr (JObj ?qd')"
    by (simp add: apply_filters_def)
  obtain us where us: "prefix us (api_urls env (JObj ?qd') categories (rng_calls ?w1))"
    and loop: "requests (snd (category_loop env query (JObj ?qd') categories [] ?w1)) = requests ?w1 @ us"
    using category_loop_requests [of env "JObj ?qd'" categories ?w1 query "[]"] by blast
  from assms(2-4) filt loop
  have "requests (snd (zillow_request env query (Some filters) categories w)) =
          requests w @ landing_url query # us"
    by (simp add: zillow_request_def session_get_def)
  moreover have "getitem (JObj ?qd') ''filterState'' = Inr (JObj filters)"
    by (simp add: map_of_dict_update_same)
  moreover have "\<forall>k. k \<noteq> ''filterState'' \<longrightarrow> getitem (JObj ?qd') k = getitem (JObj qd) k"
    by (simp add: map_of_dict_update_other)
  moreover from us have "prefix us (api_urls env (JObj ?qd') categories (rng_calls w))"
    by simp
  ultimately show ?thesis
    by blast
qed

theorem zillow_request_filter_replaced_witness:
  "\<exists>qd' us.
     getitem (JObj qd') ''filterState'' = Inr (JObj [(''isForRent'', JObj [(''value'', JBool True)])])
     \<and> prefix us (api_urls demo_env (JObj qd') [''cat1'', ''cat2''] (rng_calls demo_world))
     \<and> requests (snd (zillow_request demo_env ''Honolulu, HI''
          (Some [(''isForRent'', JObj [(''value'', JBool True)])]) [''cat1'', ''cat2''] demo_world)) =
          requests demo_world @ landing_url ''Honolulu, HI'' # us"
proof -
  have nonempty: "[(''isForRent'', JObj [(''value'', JBool True)])] \<noteq> ([] :: (string \<times> real json) list)"
    by simp
  have get: "http_get demo_env (landing_url ''Honolulu, HI'') = Some demo_landing_page"
    by (simp add: demo_defs)
  have loads: \<open>json_loads demo_env ''{"filterState":{"sort":1}}'' = Some (JObj [(''filterState'', JObj [(''sort'', JInt 1)])])\<close>
    by (simp add: demo_defs demo_query_state_def)
  show ?thesis
    using zillow_request_filter_replaced [OF nonempty get demo_landing_match loads,
        of "[''cat1'', ''cat2'']" demo_world]
    by blast
qed

text \<open>C3 as stated fails for the empty mapping: it is supplied, yet the request keeps the
  landing page's filter section, with its key \<open>sort\<close>.\<close>

theorem zillow_request_filter_replaced_counterexample:
  \<open>http_get demo_env (landing_url ''Honolulu, HI'') = Some demo_landing_page
   \<and> re_findall_query_state (resp_text demo_landing_page) = [''{"filterState":{"sort":1}}'']
   \<and> json_loads demo_env ''{"filterState":{"sort":1}}'' = Some demo_query_state
   \<and> getitem demo_query_state ''filterState'' = Inr (JObj [(''sort'', JInt 1)])
   \<and> requests (snd (zillow_request demo_env ''Honolulu, HI'' (Some []) [''cat1''] demo_world)) =
       [landing_url ''Honolulu, HI'',
        search_url @ urlencode demo_env (full_query demo_query_state ''cat1'' 2)]
   \<and> urlencode demo_env (full_query demo_query_state ''cat1'' 2) =
        ''searchQueryState=sort.&wants=cat1.&requestId=&''
   \<and> getitem demo_query_state ''filterState'' \<noteq> Inr (JObj [])\<close>
proof -
  have get: "http_get demo_env (landing_url ''Honolulu, HI'') = Some demo_landing_page"
    by (simp add: demo_defs)
  have loads: \<open>json_loads demo_env ''{"filterState":{"sort":1}}'' = Some demo_query_state\<close>
    by (simp add: demo_defs)
  have enc: "urlencode demo_env (full_query demo_query_state ''cat1'' 2) =
        ''searchQueryState=sort.&wants=cat1.&requestId=&''"
    by (simp add: demo_defs json_simps demo_query_state_def)
  have c1: "http_get demo_env (search_url @ ''searchQueryState=sort.&wants=cat1.&requestId=&'')
      = Some \<lparr>resp_text = [], resp_json = Some demo_cat1\<rparr>"
    by (simp add: demo_defs)
  have rid: "randint demo_env 0 = 2"
    by (simp add: demo_defs)
  have step: "requests (snd (category_step demo_env ''Honolulu, HI'' demo_query_state ''cat1'' []
        (demo_world\<lparr>requests := requests demo_world @ [landing_url ''Honolulu, HI'']\<rparr>))) =
      [landing_url ''Honolulu, HI'', search_url @ urlencode demo_env (full_query demo_query_state ''cat1'' 2)]"
    using rid by (simp add: category_step_requests demo_world_def)
  have "requests (snd (zillow_request demo_env ''Honolulu, HI'' (Some []) [''cat1''] demo_world)) =
       [landing_url ''Honolulu, HI'', search_url @ urlencode demo_env (full_query demo_query_state ''cat1'' 2)]"
    using get loads demo_landing_match step
    by (auto simp add: zillow_request_def session_get_def apply_filters_def split: prod.splits sum.splits)
  with get loads enc demo_landing_match show ?thesis
    by (simp add: demo_query_state_def)
qed

text \<open>
  C8. The rent preset always calls the base search with the single category \<open>cat1\<close> and one
  fixed filter mapping of exactly 11 keys: \<open>isAllHomes\<close> and \<open>isForRent\<close> map to value
  true, the other nine to value false.
\<close>

theorem search_rent_preset:
  "\<exists>filters.
     (\<forall>(env :: 'f env) query w.
        search_rent env query w =
          zillow_request env query (Some filters) [''cat1''] (w\<lparr>logs := logs w @ [Info_rent query]\<rparr>))
     \<and> length filters = 11
     \<and> distinct (map fst filters)
     \<and> map_of filters ''isAllHomes'' = Some (JObj [(''value'', JBool True)])
     \<and> map_of filters ''isForRent'' = Some (JObj [(''value'', JBool True)])
     \<and> map_of filters ''isForSaleForeclosure'' = Some (JObj [(''value'', JBool False)])
     \<and> map_of filters ''isMultiFamily'' = Some (JObj [(''value'', JBool False)])
     \<and> map_of filters ''isAuction'' = Some (JObj [(''value'', JBool False)])
     \<and> map_of filters ''isNewConstruction'' = Some (JObj [(''value'', JBool False)])
     \<and> map_of filters ''isLotLand'' = Some (JObj [(''value'', JBool False)])
     \<and> map_of filters ''isManufactured'' = Some (JObj [(''value'', JBool False)])
     \<and> map_of filters ''isForSaleByOwner'' = Some (JObj [(''value'', JBool False)])
     \<and> map_of filters ''isForSaleByAgent'' = Some (JObj [(''value'', JBool False)])
     \<and> map_of filters ''isComingSoon'' = Some (JObj [(''value'', JBool False)])"
  unfolding search_rent_def Let_def
  by (rule exI, intro conjI allI, rule refl) simp_all

section \<open>The Listing Extractor\<close>

text \<open>
  C1 (as amended). On a page with only the Apollo-cache element, whose double-encoded
  \<open>apiCache\<close> decodes to a mapping, extraction selects the first entry, in enumeration
  order, whose key contains \<open>ForSale\<close>, and its result is that entry's \<open>property\<close>
  lookup as it is, without projection: the field when the entry has one, the lookup's
  failure when it has none (no later entry is tried).
\<close>

theorem scrape_apollo_first_for_sale:
  assumes "http_get env url = Some page"
    and "css_get env ''script#__NEXT_DATA__::text'' (resp_text page) = None"
    and "css_get env ''script#hdpApolloPreloadedData::text'' (resp_text page) = Some s"
    and "json_loads env s = Some d"
    and "getitem d ''apiCache'' = Inr (JStr t)"
    and "json_loads env t = Some (JObj items)"
    and "find (\<lambda>p. contains ''ForSale'' (fst p)) items = Some (k, v)"
  shows "fst (scrape env url w) = getitem v ''property''"
  using assms
  by (simp add: scrape_apollo apollo_branch_items next_for_sale_find)

theorem scrape_apollo_first_for_sale_witness:
  "fst (scrape demo_env ''https://www.zillow.com/homedetails/1_zpid'' demo_world) =
     Inr (JObj [(''zpid'', JInt 1), (''price'', JInt 500000)])"
proof -
  have get: "http_get demo_env ''https://www.zillow.com/homedetails/1_zpid'' = Some \<lparr>resp_text = ''home1.html'', resp_json = None\<rparr>"
    by (simp add: demo_defs)
  have no_next: "css_get demo_env ''script#__NEXT_DATA__::text'' (resp_text \<lparr>resp_text = ''home1.html'', resp_json = None :: real json option\<rparr>) = None"
    by (simp add: demo_defs)
  have apollo: "css_get demo_env ''script#hdpApolloPreloadedData::text'' (resp_text \<lparr>resp_text = ''home1.html'', resp_json = None :: real json option\<rparr>) = Some ''home1.json''"
    by (simp add: demo_defs)
  have outer: "json_loads demo_env ''home1.json'' = Some (JObj [(''apiCache'', JStr ''cache1.json'')])"
    by (simp add: demo_defs)
  have cache: "getitem (JObj [(''apiCache'', JStr ''cache1.json'')] :: real json) ''apiCache'' = Inr (JStr ''cache1.json'')"
    by simp
  have inner: "json_loads demo_env ''cache1.json'' = Some (JObj demo_cache1)"
    by (simp add: demo_defs)
  have first: "find (\<lambda>p. contains ''ForSale'' (fst p)) demo_cache1 =
      Some (''ForSaleShopperPlatformFullRenderQuery{zpid:1}'',
            JObj [(''property'', JObj [(''zpid'', JInt 1), (''price'', JInt 500000)])])"
    by (simp add: demo_cache1_def)
  show ?thesis
    using scrape_apollo_first_for_sale [OF get no_next apollo outer cache inner first, of demo_world]
    by simp
qed

text \<open>C1 as stated fails: the first \<open>ForSale\<close> entry has no \<open>property\<close> field, the second
  has one; the specification's rule selects the second, the code raises \<open>KeyError\<close>.\<close>

theorem scrape_apollo_first_for_sale_counterexample:
  "css_get demo_env ''script#__NEXT_DATA__::text'' ''home2.html'' = None
   \<and> css_get demo_env ''script#hdpApolloPreloadedData::text'' ''home2.html'' = Some ''home2.json''
   \<and> json_loads demo_env ''home2.json'' = Some (JObj [(''apiCache'', JStr ''cache2.json'')])
   \<and> json_loads demo_env ''cache2.json'' = Some (JObj demo_cache2)
   \<and> first_for_sale_with_property demo_cache2 = Some (Inr (JObj [(''zpid'', JInt 2)]))
   \<and> fst (scrape demo_env ''https://www.zillow.com/homedetails/2_zpid'' demo_world) = Inl (KeyError ''property'')"
  by (simp add: demo_defs scrape_defs demo_cache2_def first_for_sale_with_property_def has_property_def)

text \<open>
  C4. On a page whose next-data element holds a JSON document with a building object at
  \<open>props.initialReduxState.gdp.building\<close> that has the seven source keys, extraction
  yields a record with exactly the seven fields address, description, photos, zipcode,
  phone, name and floor_plans, each taken from its source key, photos being the \<open>url\<close> of
  each gallery photo in order.
\<close>

theorem scrape_next_data_record:
  assumes "http_get env url = Some page"
    and "css_get env ''script#__NEXT_DATA__::text'' (resp_text page) = Some s"
    and "s \<noteq> []"
    and "json_loads env s = Some d"
    and "getitem d ''props'' = Inr d1"
    and "getitem d1 ''initialReduxState'' = Inr d2"
    and "getitem d2 ''gdp'' = Inr d3"
    and "getitem d3 ''building'' = Inr building"
    and "getitem building ''address'' = Inr address"
    and "getitem building ''description'' = Inr description"
    and "getitem building ''galleryPhotos'' = Inr (JArr photos)"
    and "list_all2 (\<lambda>photo u. getitem photo ''url'' = Inr u) photos urls"
    and "getitem building ''zipcode'' = Inr zipcode"
    and "getitem building ''buildingPhoneNumber'' = Inr phone"
    and "getitem building ''buildingName'' = Inr name"
    and "getitem building ''floorPlans'' = Inr floor_plans"
  shows "fst (scrape env url w) =
           Inr (JObj [(''address'', address),
                      (''description'', description),
                      (''photos'', JArr urls),
                      (''zipcode'', zipcode),
                      (''phone'', phone),
                      (''name'', name),
                      (''floor_plans'', floor_plans)])"
proof -
  from assms(8-16) have "parse_property building =
      Inr (JObj [(''address'', address), (''description'', description), (''photos'', JArr urls),
                 (''zipcode'', zipcode), (''phone'', phone), (''name'', name),
                 (''floor_plans'', floor_plans)])"
    by (simp add: parse_property_def photo_urls_all2)
  with assms(4-8) have "next_data_branch env s =
      Inr (JObj [(''address'', address), (''description'', description), (''photos'', JArr urls),
                 (''zipcode'', zipcode), (''phone'', phone), (''name'', name),
                 (''floor_plans'', floor_plans)])"
    by (simp add: next_data_branch_def)
  with assms(1-3) show ?thesis
    by (simp add: scrape_def session_get_def)
qed

theorem scrape_next_data_record_witness:
  "fst (scrape demo_env ''https://www.zillow.com/b/tower'' demo_world) =
     Inr (JObj [(''address'', JStr ''1 Main St''),
                (''description'', JStr ''two towers''),
                (''photos'', JArr [JStr ''p1.jpg'', JStr ''p2.jpg'']),
                (''zipcode'', JStr ''96815''),
                (''phone'', JNull),
                (''name'', JStr ''Tower''),
                (''floor_plans'', JArr [JObj [(''minPrice'', JInt 2100)]])])"
proof -
  have get: "http_get demo_env ''https://www.zillow.com/b/tower'' = Some \<lparr>resp_text = ''tower.html'', resp_json = None\<rparr>"
    by (simp add: demo_defs)
  have css: "css_get demo_env ''script#__NEXT_DATA__::text'' (resp_text \<lparr>resp_text = ''tower.html'', resp_json = None :: real json option\<rparr>) = Some ''tower.json''"
    by (simp add: demo_defs)
  have nonempty: "''tower.json'' \<noteq> []"
    by simp
  have loads: "json_loads demo_env ''tower.json'' = Some demo_next_data"
    by (simp add: demo_defs)
  have p1: "getitem demo_next_data ''props'' = Inr (JObj [(''initialReduxState'', JObj [(''gdp'', JObj [(''building'', demo_building)])])])"
    by (simp add: demo_next_data_def)
  have p2: "getitem (JObj [(''initialReduxState'', JObj [(''gdp'', JObj [(''building'', demo_building)])])]) ''initialReduxState'' = Inr (JObj [(''gdp'', JObj [(''building'', demo_building)])])"
    by simp
  have p3: "getitem (JObj [(''gdp'', JObj [(''building'', demo_building)])]) ''gdp'' = Inr (JObj [(''building'', demo_building)])"
    by simp
  have p4: "getitem (JObj [(''building'', demo_building)]) ''building'' = Inr demo_building"
    by simp
  have f1: "getitem demo_building ''address'' = Inr (JStr ''1 Main St'')"
    and f2: "getitem demo_building ''description'' = Inr (JStr ''two towers'')"
    and f3: "getitem demo_building ''galleryPhotos'' =
               Inr (JArr [JObj [(''url'', JStr ''p1.jpg''), (''caption'', JNull)], JObj [(''url'', JStr ''p2.jpg'')]])"
    and f4: "getitem demo_building ''zipcode'' = Inr (JStr ''96815'')"
    and f5: "getitem demo_building ''buildingPhoneNumber'' = Inr JNull"
    and f6: "getitem demo_building ''buildingName'' = Inr (JStr ''Tower'')"
    and f7: "getitem demo_building ''floorPlans'' = Inr (JArr [JObj [(''minPrice'', JInt 2100)]])"
    by (simp_all add: demo_building_def)
  have urls: "list_all2 (\<lambda>photo u. getitem photo ''url'' = Inr u)
      [JObj [(''url'', JStr ''p1.jpg''), (''caption'', JNull)], JObj [(''url'', JStr ''p2.jpg'')] :: real json]
      [JStr ''p1.jpg'', JStr ''p2.jpg'']"
    by simp
  show ?thesis
    using scrape_next_data_record [OF get css nonempty loads p1 p2 p3 p4 f1 f2 f3 urls f4 f5 f6 f7, of demo_world]
    by simp
qed

text \<open>
  C6 (as amended). On a page with neither the next-data element nor the Apollo-cache
  element, per-URL extraction fails with \<open>TypeError\<close> (\<^verbatim>\<open>json.loads\<close> applied to
  \<^verbatim>\<open>None\<close>; the code has no \<open>ExtractionError\<close>).
\<close>

theorem scrape_neither_marker:
  assumes "http_get env url = Some page"
    and "css_get env ''script#__NEXT_DATA__::text'' (resp_text page) = None"
    and "css_get env ''script#hdpApolloPreloadedData::text'' (resp_text page) = None"
  shows "scrape env url w = (Inl TypeError, w\<lparr>requests := requests w @ [url]\<rparr>)"
  using assms
  by (simp add: scrape_def session_get_def apollo_branch_def)

theorem scrape_neither_marker_witness:
  "scrape demo_env ''https://www.zillow.com/captcha'' demo_world =
     (Inl TypeError, \<lparr>requests = [''https://www.zillow.com/captcha''], logs = [], rng_calls = 0\<rparr>)"
proof -
  have get: "http_get demo_env ''https://www.zillow.com/captcha'' = Some \<lparr>resp_text = ''captcha.html'', resp_json = None\<rparr>"
    by (simp add: demo_defs)
  have no_next: "css_get demo_env ''script#__NEXT_DATA__::text'' (resp_text \<lparr>resp_text = ''captcha.html'', resp_json = None :: real json option\<rparr>) = None"
    by (simp add: demo_defs)
  have no_apollo: "css_get demo_env ''script#hdpApolloPreloadedData::text'' (resp_text \<lparr>resp_text = ''captcha.html'', resp_json = None :: real json option\<rparr>) = None"
    by (simp add: demo_defs)
  show ?thesis
    using scrape_neither_marker [OF get no_next no_apollo, of demo_world]
    by (simp add: demo_world_def)
qed

text \<open>C6 as stated fails: the error on such a page is \<open>TypeError\<close>, not \<open>ExtractionError\<close>.\<close>

theorem scrape_neither_marker_counterexample:
  "css_get demo_env ''script#__NEXT_DATA__::text'' ''captcha.html'' = None
   \<and> css_get demo_env ''script#hdpApolloPreloadedData::text'' ''captcha.html'' = None
   \<and> http_get demo_env ''https://www.zillow.com/captcha'' = Some \<lparr>resp_text = ''captcha.html'', resp_json = None\<rparr>
   \<and> fst (scrape demo_env ''https://www.zillow.com/captcha'' demo_world) = Inl TypeError
   \<and> fst (scrape demo_env ''https://www.zillow.com/captcha'' demo_world) \<noteq> Inl ExtractionError"
  by (simp add: demo_defs scrape_def session_get_def apollo_branch_def)

text \<open>
  C10 (as amended). On a page with only the Apollo-cache element whose \<open>apiCache\<close> mapping
  has no key containing \<open>ForSale\<close>, the generator is exhausted and per-URL extraction
  fails with \<open>RuntimeError\<close>: the \<open>StopIteration\<close> of \<^verbatim>\<open>next\<close> does not leave the
  coroutine bare. It is neither \<open>ExtractionError\<close> nor \<open>MalformedDataError\<close>.
\<close>

theorem scrape_apollo_no_for_sale:
  assumes "http_get env url = Some page"
    and "css_get env ''script#__NEXT_DATA__::text'' (resp_text page) = None"
    and "css_get env ''script#hdpApolloPreloadedData::text'' (resp_text page) = Some s"
    and "json_loads env s = Some d"
    and "getitem d ''apiCache'' = Inr (JStr t)"
    and "json_loads env t = Some (JObj items)"
    and "list_all (\<lambda>p. \<not> contains ''ForSale'' (fst p)) items"
  shows "fst (scrape env url w) = Inl RuntimeError"
proof -
  from assms(7) have "find (\<lambda>p. contains ''ForSale'' (fst p)) items = None"
    by (auto simp add: find_None_iff list_all_iff)
  with assms(1-6) show ?thesis
    by (simp add: scrape_apollo apollo_branch_items next_for_sale_find)
qed

theorem scrape_apollo_no_for_sale_witness:
  "fst (scrape demo_env ''https://www.zillow.com/homedetails/3_zpid'' demo_world) = Inl RuntimeError"
proof -
  have get: "http_get demo_env ''https://www.zillow.com/homedetails/3_zpid'' = Some \<lparr>resp_text = ''home3.html'', resp_json = None\<rparr>"
    by (simp add: demo_defs)
  have no_next: "css_get demo_env ''script#__NEXT_DATA__::text'' (resp_text \<lparr>resp_text = ''home3.html'', resp_json = None :: real json option\<rparr>) = None"
    by (simp add: demo_defs)
  have apollo: "css_get demo_env ''script#hdpApolloPreloadedData::text'' (resp_text \<lparr>resp_text = ''home3.html'', resp_json = None :: real json option\<rparr>) = Some ''home3.json''"
    by (simp add: demo_defs)
  have outer: "json_loads demo_env ''home3.json'' = Some (JObj [(''apiCache'', JStr ''cache3.json'')])"
    by (simp add: demo_defs)
  have cache: "getitem (JObj [(''apiCache'', JStr ''cache3.json'')] :: real json) ''apiCache'' = Inr (JStr ''cache3.json'')"
    by simp
  have inner: "json_loads demo_env ''cache3.json'' = Some (JObj demo_cache3)"
    by (simp add: demo_defs)
  have none: "list_all (\<lambda>p. \<not> contains ''ForSale'' (fst p)) demo_cache3"
    by (simp add: demo_cache3_def)
  show ?thesis
    using scrape_apollo_no_for_sale [OF get no_next apollo outer cache inner none, of demo_world]
    by simp
qed

text \<open>C10 as stated fails: \<^verbatim>\<open>next\<close> raises \<open>StopIteration\<close>, but what the extraction
  fails with is \<open>RuntimeError\<close>.\<close>

theorem scrape_apollo_no_for_sale_counterexample:
  "css_get demo_env ''script#__NEXT_DATA__::text'' ''home3.html'' = None
   \<and> css_get demo_env ''script#hdpApolloPreloadedData::text'' ''home3.html'' = Some ''home3.json''
   \<and> json_loads demo_env ''home3.json'' = Some (JObj [(''apiCache'', JStr ''cache3.json'')])
   \<and> json_loads demo_env ''cache3.json'' = Some (JObj demo_cache3)
   \<and> next_for_sale demo_cache3 = Inl StopIteration
   \<and> fst (scrape demo_env ''https://www.zillow.com/homedetails/3_zpid'' demo_world) = Inl RuntimeError
   \<and> fst (scrape demo_env ''https://www.zillow.com/homedetails/3_zpid'' demo_world) \<noteq> Inl StopIteration"
  by (simp add: demo_defs scrape_defs demo_cache3_def)

section \<open>Entry points\<close>







lemma find_properties_never_returns: "fst (find_properties env url w) \<noteq> Inr v"
  by (simp add: find_properties_def split: prod.splits sum.splits)

text \<open>
  C7. ``Find property'' resolves the path against \<^verbatim>\<open>https://www.zillow.com\<close> and runs the
  extractor on that single URL, but does not return the parsed record: here the extractor
  yields the record of the page, and \<open>find_properties\<close> fails with \<open>TypeError\<close>, because it
  applies \<^verbatim>\<open>json.loads\<close> to the list of results.
\<close>

theorem find_properties_type_error:
  "fst (scrape_properties demo_env [''https://www.zillow.com'' @ ''/b/tower''] demo_world) =
     Inr [JObj [(''address'', JStr ''1 Main St''),
                (''description'', JStr ''two towers''),
                (''photos'', JArr [JStr ''p1.jpg'', JStr ''p2.jpg'']),
                (''zipcode'', JStr ''96815''),
                (''phone'', JNull),
                (''name'', JStr ''Tower''),
                (''floor_plans'', JArr [JObj [(''minPrice'', JInt 2100)]])]]
   \<and> fst (find_properties demo_env ''/b/tower'' demo_world) = Inl TypeError"
  by (simp add: find_properties_def scrape_properties_def demo_defs scrape_defs
      demo_next_data_def demo_building_def)

end
